theory Spec2Isabelle
  imports Complex_Main
begin

section \<open>Dialogue-to-note evaluation: the data model\<close>

text \<open>
  The development embeds \<^verbatim>\<open>evaluate_submission\<close> of
  \<^verbatim>\<open>src/evaluate_dialogue_to_note.py\<close>.

  A cell of a data frame column is a string, a missing value (pandas' NaN/None), or some
  other scalar (a number read by \<^verbatim>\<open>read_csv\<close>); Python's \<^verbatim>\<open>str\<close> on
  such a scalar is a parameter \<open>py_str\<close> of the model.
\<close>

datatype 'a cell = NaN | Str string | Other 'a

text \<open>
  The two input frames have the columns the docstring of \<^verbatim>\<open>evaluate_submission\<close>
  names: \<^verbatim>\<open>[id, note, dialogue]\<close> and \<^verbatim>\<open>[id, generated_note]\<close>. A frame is
  the list of its rows. Field names carry a prefix because \<open>id\<close> and \<open>note\<close> are taken
  in Isabelle.
\<close>

record ('i, 'a) ground_truth_row =
  gt_id :: 'i
  gt_note :: "'a cell"
  gt_dialogue :: "'a cell"

record ('i, 'a) submission_row =
  sub_id :: 'i
  sub_generated_note :: "'a cell"

record ('i, 'a) merged_row =
  m_id :: 'i
  m_note :: "'a cell"
  m_dialogue :: "'a cell"
  m_generated_note :: "'a cell"

text \<open>
  \<^verbatim>\<open>ground_truth_df.merge(submission_df, on='id', how='inner')\<close>: every pair of a
  left row and a right row with the same id gives one row, in the order of the left rows
  (pandas: "preserve the order of the left keys"), the right rows of one left row in their
  own order.
\<close>

definition join_rows ::
  "('i, 'a) ground_truth_row \<Rightarrow> ('i, 'a) submission_row \<Rightarrow> ('i, 'a) merged_row" where
  "join_rows g s =
     \<lparr>m_id = gt_id g, m_note = gt_note g, m_dialogue = gt_dialogue g,
      m_generated_note = sub_generated_note s\<rparr>"

definition matching_rows ::
  "('i, 'a) ground_truth_row \<Rightarrow> ('i, 'a) submission_row list \<Rightarrow> ('i, 'a) submission_row list" where
  "matching_rows g submission_df = filter (\<lambda>s. sub_id s = gt_id g) submission_df"

definition merge_inner ::
  "('i, 'a) ground_truth_row list \<Rightarrow> ('i, 'a) submission_row list \<Rightarrow> ('i, 'a) merged_row list" where
  "merge_inner ground_truth_df submission_df =
     concat (map (\<lambda>g. map (join_rows g) (matching_rows g submission_df)) ground_truth_df)"

text \<open>
  \<^verbatim>\<open>Series.fillna('')\<close>, \<^verbatim>\<open>Series.astype(str)\<close> and \<^verbatim>\<open>Series.tolist()\<close>.
  \<^verbatim>\<open>astype(str)\<close> alone turns a missing value into the text \<^verbatim>\<open>nan\<close>.
\<close>

definition fillna :: "string \<Rightarrow> 'a cell list \<Rightarrow> 'a cell list" where
  "fillna v col = map (\<lambda>c. case c of NaN \<Rightarrow> Str v | Str s \<Rightarrow> Str s | Other x \<Rightarrow> Other x) col"

definition astype_str :: "('a \<Rightarrow> string) \<Rightarrow> 'a cell list \<Rightarrow> string list" where
  "astype_str py_str col =
     map (\<lambda>c. case c of NaN \<Rightarrow> ''nan'' | Str s \<Rightarrow> s | Other x \<Rightarrow> py_str x) col"

definition tolist :: "string list \<Rightarrow> string list" where
  "tolist col = col"

definition predictions_of :: "('a \<Rightarrow> string) \<Rightarrow> ('i, 'a) merged_row list \<Rightarrow> string list" where
  "predictions_of py_str merged = tolist (astype_str py_str (fillna '''' (map m_generated_note merged)))"

definition references_of :: "('a \<Rightarrow> string) \<Rightarrow> ('i, 'a) merged_row list \<Rightarrow> string list" where
  "references_of py_str merged = tolist (astype_str py_str (fillna '''' (map m_note merged)))"

section \<open>The scorers, the effects and the result\<close>

text \<open>
  \<^verbatim>\<open>bench_utils.automatic_metrics.MetricsComputer\<close> is imported, its code is not part
  of the sources. Its three methods are parameters of the model: functions of the two
  lists the object was built from. Their result types are those the caller relies on: a
  number for BLEU and METEOR, and for ROUGE a mapping that is read at the four keys
  \<^verbatim>\<open>rouge1, rouge2, rougeL, rougeLsum\<close>.
\<close>

record rouge_scores =
  rouge1 :: real
  rouge2 :: real
  rougeL :: real
  rougeLsum :: real

record metrics_computer =
  compute_BLEU :: "string list \<Rightarrow> string list \<Rightarrow> real"
  compute_ROUGE :: "string list \<Rightarrow> string list \<Rightarrow> rouge_scores"
  compute_METEOR :: "string list \<Rightarrow> string list \<Rightarrow> real"

datatype scorer = BLEU | ROUGE | METEOR

text \<open>
  What the function does besides returning: the lines it prints, the construction of the
  \<^verbatim>\<open>MetricsComputer\<close> and the calls of its methods, in order. A printed line is kept
  by its data, not its wording.
\<close>

datatype 'i message =
    Warning_missing nat "'i set"
  | Error_no_matching_ids
  | Evaluating nat
  | Computing scorer

datatype 'i event =
    Print "'i message"
  | New_MetricsComputer "string list" "string list"
  | Call scorer

definition is_scoring :: "'i event \<Rightarrow> bool" where
  "is_scoring e = (case e of Print m \<Rightarrow> False | New_MetricsComputer p r \<Rightarrow> True | Call s \<Rightarrow> True)"


text \<open>
  \<^verbatim>\<open>sys.exit(1)\<close> raises \<^verbatim>\<open>SystemExit(1)\<close>; it is the only exception
  \<^verbatim>\<open>evaluate_submission\<close> raises itself. \<open>InputMismatchError\<close> is the name the
  specification gives to the aggregator's input error; no line of the source raises it.
\<close>

datatype error = SystemExit int | InputMismatchError

datatype pyval = PyFloat real | PyInt int

type_synonym results = "string \<rightharpoonup> pyval"

text \<open>
  Lines 61 to 63: the warning with the ids of the ground truth that the merged frame lacks,
  printed whenever the two frames differ in length (so also when duplicate ids make the
  merged frame the longer one).
\<close>

definition missing_ids ::
  "('i, 'a) ground_truth_row list \<Rightarrow> ('i, 'a) merged_row list \<Rightarrow> 'i set" where
  "missing_ids ground_truth_df merged = set (map gt_id ground_truth_df) - set (map m_id merged)"

definition warnings ::
  "('i, 'a) ground_truth_row list \<Rightarrow> ('i, 'a) merged_row list \<Rightarrow> 'i event list" where
  "warnings ground_truth_df merged =
     (if length merged \<noteq> length ground_truth_df
      then [Print (Warning_missing (card (missing_ids ground_truth_df merged))
                                   (missing_ids ground_truth_df merged))]
      else [])"

text \<open>
  Lines 74 to 90, the effects: the line announcing the number of samples, the construction
  of the \<^verbatim>\<open>MetricsComputer\<close> from the two lists, and for each scorer the line
  announcing it and the call of its method (the methods take no argument: they work on the
  lists given at construction).
\<close>

definition scoring_events :: "string list \<Rightarrow> string list \<Rightarrow> 'i event list" where
  "scoring_events predictions references =
     [Print (Evaluating (length predictions)),
      New_MetricsComputer predictions references,
      Print (Computing BLEU), Call BLEU,
      Print (Computing ROUGE), Call ROUGE,
      Print (Computing METEOR), Call METEOR]"

text \<open>
  Lines 77 to 94, the dictionary: the keys in the order the source assigns them,
  \<^verbatim>\<open>compute_ROUGE\<close> called once and read four times. \<^verbatim>\<open>len(merged)\<close> is an
  integer; the float division and multiplication of \<^verbatim>\<open>coverage\<close> are taken over the
  reals (the divisor is not 0 where the function gets this far, see C10).
\<close>

definition build_results ::
  "metrics_computer \<Rightarrow> string list \<Rightarrow> string list \<Rightarrow> nat \<Rightarrow> nat \<Rightarrow> results" where
  "build_results mc predictions references n_merged n_ground_truth =
     (let results = Map.empty;
          results = results(''bleu'' \<mapsto> PyFloat (compute_BLEU mc predictions references));
          rouge = compute_ROUGE mc predictions references;
          results = results(''rouge1'' \<mapsto> PyFloat (rouge1 rouge));
          results = results(''rouge2'' \<mapsto> PyFloat (rouge2 rouge));
          results = results(''rougeL'' \<mapsto> PyFloat (rougeL rouge));
          results = results(''rougeLsum'' \<mapsto> PyFloat (rougeLsum rouge));
          results = results(''meteor'' \<mapsto> PyFloat (compute_METEOR mc predictions references));
          results = results(''num_samples'' \<mapsto> PyInt (int n_merged));
          results = results(''coverage'' \<mapsto> PyFloat (real n_merged / real n_ground_truth * 100))
      in results)"

text \<open>
  \<^verbatim>\<open>evaluate_submission(submission_df, ground_truth_df)\<close>, lines 47 to 96: the events
  in order, and either the exception raised (lines 65 to 67) or the dictionary returned.
\<close>

definition evaluate_submission ::
  "('a \<Rightarrow> string) \<Rightarrow> metrics_computer \<Rightarrow>
   ('i, 'a) submission_row list \<Rightarrow> ('i, 'a) ground_truth_row list \<Rightarrow>
   'i event list \<times> (error + results)" where
  "evaluate_submission py_str mc submission_df ground_truth_df =
     (let merged = merge_inner ground_truth_df submission_df;
          out = warnings ground_truth_df merged
      in if length merged = 0
         then (out @ [Print Error_no_matching_ids], Inl (SystemExit 1))
         else
           (let predictions = predictions_of py_str merged;
                references = references_of py_str merged
            in (out @ scoring_events predictions references,
                Inr (build_results mc predictions references
                       (length merged) (length ground_truth_df)))))"

section \<open>The same function on a store of objects\<close>

text \<open>
  Python passes the two frames by reference and every pandas call works on objects. To
  say what happens to the objects the caller handed in, the function is written once more
  on a store: a list of objects, the address of an object being its index. Each call of
  the source is one operation that reads its operands from the store and puts its result
  at a fresh address: \<^verbatim>\<open>merge\<close>, \<^verbatim>\<open>merged[col]\<close>, \<^verbatim>\<open>fillna\<close> (called without
  \<^verbatim>\<open>inplace=True\<close>), \<^verbatim>\<open>astype\<close> and \<^verbatim>\<open>tolist\<close> all return new objects. The
  result is \<open>None\<close> when an address does not hold an object of the kind the operation
  needs, which is a call outside the docstring's contract. The scorers receive the two
  new lists only.
\<close>

datatype ('i, 'a) pyobj =
    Ground_truth_frame "('i, 'a) ground_truth_row list"
  | Submission_frame "('i, 'a) submission_row list"
  | Merged_frame "('i, 'a) merged_row list"
  | Series "'a cell list"
  | Str_series "string list"
  | Py_list "string list"

type_synonym ('i, 'a) store = "('i, 'a) pyobj list"

definition lookup :: "('i, 'a) store \<Rightarrow> nat \<Rightarrow> ('i, 'a) pyobj option" where
  "lookup h a = (if a < length h then Some (h ! a) else None)"

definition alloc :: "('i, 'a) pyobj \<Rightarrow> ('i, 'a) store \<Rightarrow> nat \<times> ('i, 'a) store" where
  "alloc v h = (length h, h @ [v])"

definition merge_store :: "nat \<Rightarrow> nat \<Rightarrow> ('i, 'a) store \<Rightarrow> (nat \<times> ('i, 'a) store) option" where
  "merge_store left right h =
     (case (lookup h left, lookup h right) of
        (Some (Ground_truth_frame gt), Some (Submission_frame sub)) \<Rightarrow>
           Some (alloc (Merged_frame (merge_inner gt sub)) h)
      | _ \<Rightarrow> None)"

datatype column = Col_generated_note | Col_note

definition getitem_store :: "nat \<Rightarrow> column \<Rightarrow> ('i, 'a) store \<Rightarrow> (nat \<times> ('i, 'a) store) option" where
  "getitem_store frame col h =
     (case lookup h frame of
        Some (Merged_frame merged) \<Rightarrow>
          Some (alloc (Series (map (case col of Col_generated_note \<Rightarrow> m_generated_note
                                              | Col_note \<Rightarrow> m_note) merged)) h)
      | _ \<Rightarrow> None)"

definition fillna_store :: "string \<Rightarrow> nat \<Rightarrow> ('i, 'a) store \<Rightarrow> (nat \<times> ('i, 'a) store) option" where
  "fillna_store v series h =
     (case lookup h series of
        Some (Series col) \<Rightarrow> Some (alloc (Series (fillna v col)) h)
      | _ \<Rightarrow> None)"

definition astype_str_store :: "('a \<Rightarrow> string) \<Rightarrow> nat \<Rightarrow> ('i, 'a) store \<Rightarrow> (nat \<times> ('i, 'a) store) option" where
  "astype_str_store py_str series h =
     (case lookup h series of
        Some (Series col) \<Rightarrow> Some (alloc (Str_series (astype_str py_str col)) h)
      | _ \<Rightarrow> None)"

definition tolist_store :: "nat \<Rightarrow> ('i, 'a) store \<Rightarrow> (nat \<times> ('i, 'a) store) option" where
  "tolist_store series h =
     (case lookup h series of
        Some (Str_series col) \<Rightarrow> Some (alloc (Py_list (tolist col)) h)
      | _ \<Rightarrow> None)"

definition column_tolist_store ::
  "('a \<Rightarrow> string) \<Rightarrow> nat \<Rightarrow> column \<Rightarrow> ('i, 'a) store \<Rightarrow> (nat \<times> ('i, 'a) store) option" where
  "column_tolist_store py_str frame col h =
     Option.bind (getitem_store frame col h) (\<lambda>(s1, h1).
     Option.bind (fillna_store '''' s1 h1) (\<lambda>(s2, h2).
     Option.bind (astype_str_store py_str s2 h2) (\<lambda>(s3, h3).
       tolist_store s3 h3)))"

definition evaluate_submission_store ::
  "('a \<Rightarrow> string) \<Rightarrow> metrics_computer \<Rightarrow> nat \<Rightarrow> nat \<Rightarrow> ('i, 'a) store \<Rightarrow>
   (('i, 'a) store \<times> 'i event list \<times> (error + results)) option" where
  "evaluate_submission_store py_str mc submission_df ground_truth_df h =
     Option.bind (merge_store ground_truth_df submission_df h) (\<lambda>(merged, h1).
       case (lookup h1 merged, lookup h1 ground_truth_df) of
         (Some (Merged_frame m), Some (Ground_truth_frame gt)) \<Rightarrow>
           (let out = warnings gt m in
            if length m = 0
            then Some (h1, out @ [Print Error_no_matching_ids], Inl (SystemExit 1))
            else
              Option.bind (column_tolist_store py_str merged Col_generated_note h1) (\<lambda>(predictions, h2).
              Option.bind (column_tolist_store py_str merged Col_note h2) (\<lambda>(references, h3).
                case (lookup h3 predictions, lookup h3 references) of
                  (Some (Py_list p), Some (Py_list r)) \<Rightarrow>
                    Some (h3, out @ scoring_events p r,
                          Inr (build_results mc p r (length m) (length gt)))
                | _ \<Rightarrow> None)))
       | _ \<Rightarrow> None)"

section \<open>The scorers of the specification\<close>

text \<open>
  Modelled from the spec: the tokenizer and the BLEU, ROUGE and METEOR scorers behind
  \<^verbatim>\<open>compute_BLEU\<close>, \<^verbatim>\<open>compute_ROUGE\<close> and \<^verbatim>\<open>compute_METEOR\<close> of
  \<^verbatim>\<open>bench_utils.automatic_metrics.MetricsComputer\<close>, whose code is not among the
  sources. The definitions follow sections 4.1 to 4.4 of the specification, with exact
  real arithmetic in place of floats. Where the specification leaves a choice open, the
  choice is a parameter: the smoothing constant of BLEU, the sentence segmentation of
  ROUGE-Lsum, the stemmer and the synonym relation of METEOR.
\<close>

subsection \<open>Tokenizer (section 4.1)\<close>

text \<open>
  Modelled from the spec: lowercase every character, split on whitespace; the empty text
  gives no token. Punctuation is not stripped (the optional policy is fixed to "none").
  A character is a byte here, so only the letters A to Z change under lowercasing.
\<close>

definition is_whitespace :: "char \<Rightarrow> bool" where
  "is_whitespace c = (c \<in> set [CHR '' '', CHR 0x09, CHR 0x0A, CHR 0x0B, CHR 0x0C, CHR 0x0D])"

definition lowercase :: "char \<Rightarrow> char" where
  "lowercase c = (let n = (of_char c :: nat) in if 65 \<le> n \<and> n \<le> 90 then char_of (n + 32) else c)"

fun split_whitespace :: "string \<Rightarrow> string \<Rightarrow> string list" where
  "split_whitespace w [] = (if w = [] then [] else [rev w])"
| "split_whitespace w (c # cs) =
     (if is_whitespace c
      then (if w = [] then split_whitespace [] cs else rev w # split_whitespace [] cs)
      else split_whitespace (c # w) cs)"

definition tokenize :: "string \<Rightarrow> string list" where
  "tokenize text = split_whitespace [] (map lowercase text)"

subsection \<open>BLEU (section 4.2)\<close>

text \<open>
  Modelled from the spec: the n-grams of a token sequence, and the number of n-grams of
  the candidate counted with multiplicity, each clipped to its count in the reference.
\<close>

definition ngrams :: "nat \<Rightarrow> 'a list \<Rightarrow> 'a list list" where
  "ngrams n ts = map (\<lambda>i. take n (drop i ts)) [0..<length ts + 1 - n]"

definition clipped_count :: "'a list \<Rightarrow> 'a list \<Rightarrow> nat" where
  "clipped_count cs rs = (\<Sum>g\<leftarrow>remdups cs. min (count_list cs g) (count_list rs g))"

text \<open>
  Modelled from the spec: the modified n-gram precision over the whole corpus, 0 when the
  candidates have no n-gram of that order. Smoothing is add-epsilon on a zero count of
  matches: \<open>eps\<close> stands in for the zero; \<open>eps = 0\<close> is no smoothing. Then the brevity
  penalty, the geometric mean with weights 0.25 (0 as soon as one precision is 0) and
  their product. With no candidate token at all the score is 0 and nothing is divided.
\<close>

definition modified_precision :: "real \<Rightarrow> nat \<Rightarrow> (string list \<times> string list) list \<Rightarrow> real" where
  "modified_precision eps n corpus =
     (let matched = (\<Sum>(c, r)\<leftarrow>corpus. clipped_count (ngrams n c) (ngrams n r));
          total = (\<Sum>(c, r)\<leftarrow>corpus. length (ngrams n c))
      in if total = 0 then 0
         else if matched = 0 then eps / real total
         else real matched / real total)"

definition brevity_penalty :: "nat \<Rightarrow> nat \<Rightarrow> real" where
  "brevity_penalty candidate_length reference_length =
     (if candidate_length \<ge> reference_length then 1
      else exp (1 - real reference_length / real candidate_length))"

definition geometric_mean :: "real list \<Rightarrow> real" where
  "geometric_mean ps = prod_list (map (\<lambda>p. p powr (1 / 4)) ps)"

definition bleu_score :: "real \<Rightarrow> (string list \<times> string list) list \<Rightarrow> real" where
  "bleu_score eps corpus =
     (let candidate_length = (\<Sum>(c, r)\<leftarrow>corpus. length c);
          reference_length = (\<Sum>(c, r)\<leftarrow>corpus. length r)
      in if candidate_length = 0 then 0
         else brevity_penalty candidate_length reference_length *
              geometric_mean (map (\<lambda>n. modified_precision eps n corpus) [1, 2, 3, 4]))"

subsection \<open>ROUGE (section 4.3)\<close>

text \<open>
  Modelled from the spec: precision and recall as ratios that are 0 when there is nothing
  to divide by, the F-measure \<open>2PR/(P+R)\<close> (0 if \<open>P + R = 0\<close>), the arithmetic mean over
  the corpus (0 for the empty corpus, which section 4.5 refuses), ROUGE-n on clipped
  n-gram overlap and ROUGE-L on the length of a longest common subsequence.
\<close>

definition ratio :: "nat \<Rightarrow> nat \<Rightarrow> real" where
  "ratio a b = (if b = 0 then 0 else real a / real b)"

definition f_measure :: "real \<Rightarrow> real \<Rightarrow> real" where
  "f_measure p r = (if p + r = 0 then 0 else 2 * p * r / (p + r))"

definition mean :: "real list \<Rightarrow> real" where
  "mean xs = (if xs = [] then 0 else sum_list xs / real (length xs))"

definition rouge_n_pair :: "nat \<Rightarrow> string list \<Rightarrow> string list \<Rightarrow> real" where
  "rouge_n_pair n c r =
     (let overlap = clipped_count (ngrams n c) (ngrams n r)
      in f_measure (ratio overlap (length (ngrams n c))) (ratio overlap (length (ngrams n r))))"

fun lcs :: "'a list \<Rightarrow> 'a list \<Rightarrow> nat" where
  "lcs [] ys = 0"
| "lcs (x # xs) [] = 0"
| "lcs (x # xs) (y # ys) =
     (if x = y then Suc (lcs xs ys) else max (lcs (x # xs) ys) (lcs xs (y # ys)))"

definition rouge_l_pair :: "string list \<Rightarrow> string list \<Rightarrow> real" where
  "rouge_l_pair c r = f_measure (ratio (lcs c r) (length c)) (ratio (lcs c r) (length r))"

text \<open>
  Modelled from the spec: ROUGE-Lsum. For each sentence of the reference, the positions of
  the candidate's tokens that a longest common subsequence with the whole candidate
  matches (\<open>lcs_positions\<close>, positions counted from \<open>k\<close>); the hits are the union of
  these positions over the sentences. Precision divides by the candidate's tokens, recall
  by the tokens of the reference's sentences. \<open>sentences\<close> is the segmentation; the one
  that returns the whole text as a single sentence is the degradation to ROUGE-L the
  specification allows.
\<close>

fun lcs_positions :: "'a list \<Rightarrow> nat \<Rightarrow> 'a list \<Rightarrow> nat list" where
  "lcs_positions [] k ys = []"
| "lcs_positions (x # xs) k [] = []"
| "lcs_positions (x # xs) k (y # ys) =
     (if x = y then k # lcs_positions xs (Suc k) ys
      else if lcs xs (y # ys) \<le> lcs (x # xs) ys then lcs_positions (x # xs) (Suc k) ys
      else lcs_positions xs k (y # ys))"

definition union_lcs_hits :: "string list list \<Rightarrow> string list \<Rightarrow> nat" where
  "union_lcs_hits reference_sentences c =
     length (remdups (concat (map (\<lambda>s. lcs_positions s 0 c) reference_sentences)))"

definition rouge_lsum_pair :: "(string \<Rightarrow> string list) \<Rightarrow> string \<Rightarrow> string \<Rightarrow> real" where
  "rouge_lsum_pair sentences candidate reference =
     (let c = tokenize candidate;
          ss = map tokenize (sentences reference);
          hits = union_lcs_hits ss c
      in f_measure (ratio hits (length c)) (ratio hits (length (concat ss))))"

subsection \<open>METEOR (section 4.4)\<close>

text \<open>
  Modelled from the spec: an alignment is a list of pairs (position in the candidate,
  position in the reference). The matchers are tried in priority order (exact, stem,
  synonym); each stage extends the alignment by pairs of still unmatched positions whose
  tokens the matcher accepts, no position used twice, and keeps the extension with the
  most pairs and, among those, the fewest chunks. A chunk is a maximal run of pairs that
  are adjacent in both sequences.
\<close>

type_synonym matcher = "string \<Rightarrow> string \<Rightarrow> bool"
type_synonym alignment = "(nat \<times> nat) list"

definition exact_match :: matcher where
  "exact_match a b = (a = b)"

definition stem_match :: "(string \<Rightarrow> string) \<Rightarrow> matcher" where
  "stem_match stem a b = (stem a = stem b)"

definition free_pairs :: "matcher \<Rightarrow> string list \<Rightarrow> string list \<Rightarrow> alignment \<Rightarrow> alignment" where
  "free_pairs m c r al =
     filter (\<lambda>(i, j). i \<notin> set (map fst al) \<and> j \<notin> set (map snd al) \<and> m (c ! i) (r ! j))
       (List.product [0..<length c] [0..<length r])"

definition one_to_one :: "alignment \<Rightarrow> bool" where
  "one_to_one al = (distinct (map fst al) \<and> distinct (map snd al))"

fun chunks :: "alignment \<Rightarrow> nat" where
  "chunks [] = 0"
| "chunks [p] = 1"
| "chunks (p # q # al) =
     (if fst q = Suc (fst p) \<and> snd q = Suc (snd p) then 0 else 1) + chunks (q # al)"

definition chunk_count :: "alignment \<Rightarrow> nat" where
  "chunk_count al = chunks (sort_key fst al)"

definition better :: "alignment \<Rightarrow> alignment \<Rightarrow> bool" where
  "better a b = (length b < length a \<or> (length a = length b \<and> chunk_count a < chunk_count b))"

definition align_stage :: "string list \<Rightarrow> string list \<Rightarrow> matcher \<Rightarrow> alignment \<Rightarrow> alignment" where
  "align_stage c r m al =
     fold (\<lambda>e best. if better (al @ e) best then al @ e else best)
       (filter one_to_one (subseqs (free_pairs m c r al))) al"

definition align :: "matcher list \<Rightarrow> string list \<Rightarrow> string list \<Rightarrow> alignment" where
  "align matchers c r = fold (align_stage c r) matchers []"

text \<open>
  Modelled from the spec: precision, recall, the F-mean \<open>10PR/(R+9P)\<close>, the
  fragmentation penalty \<open>0.5 (chunks/matches)^3\<close>, their combination, and 0 for a pair
  with no match.
\<close>

definition meteor_pair :: "matcher list \<Rightarrow> string list \<Rightarrow> string list \<Rightarrow> real" where
  "meteor_pair matchers c r =
     (let al = align matchers c r;
          matches = length al
      in if matches = 0 then 0
         else
           (let p = ratio matches (length c);
                rc = ratio matches (length r);
                fmean = (if p = 0 \<and> rc = 0 then 0 else 10 * p * rc / (rc + 9 * p));
                penalty = 0.5 * (real (chunk_count al) / real matches) ^ 3
            in fmean * (1 - penalty)))"

text \<open>The invariant of the alignment stages, used in the proofs only.\<close>

definition valid_alignment :: "string list \<Rightarrow> string list \<Rightarrow> alignment \<Rightarrow> bool" where
  "valid_alignment c r al =
     (one_to_one al \<and> set (map fst al) \<subseteq> {0..<length c} \<and> set (map snd al) \<subseteq> {0..<length r})"

subsection \<open>The three scorers as a \<^verbatim>\<open>MetricsComputer\<close>\<close>

text \<open>
  Modelled from the spec: each scorer on the two lists of texts. The corpus pairs the
  tokens of the i-th prediction with those of the i-th reference. BLEU is corpus-level;
  the four ROUGE values and METEOR are means of the per-pair scores.
\<close>

definition corpus_of :: "string list \<Rightarrow> string list \<Rightarrow> (string list \<times> string list) list" where
  "corpus_of predictions references = zip (map tokenize predictions) (map tokenize references)"

definition spec_BLEU :: "real \<Rightarrow> string list \<Rightarrow> string list \<Rightarrow> real" where
  "spec_BLEU eps predictions references = bleu_score eps (corpus_of predictions references)"

definition spec_ROUGE :: "(string \<Rightarrow> string list) \<Rightarrow> string list \<Rightarrow> string list \<Rightarrow> rouge_scores" where
  "spec_ROUGE sentences predictions references =
     \<lparr>rouge1 = mean (map (\<lambda>(c, r). rouge_n_pair 1 c r) (corpus_of predictions references)),
      rouge2 = mean (map (\<lambda>(c, r). rouge_n_pair 2 c r) (corpus_of predictions references)),
      rougeL = mean (map (\<lambda>(c, r). rouge_l_pair c r) (corpus_of predictions references)),
      rougeLsum = mean (map (\<lambda>(c, r). rouge_lsum_pair sentences c r) (zip predictions references))\<rparr>"

definition spec_METEOR ::
  "(string \<Rightarrow> string) \<Rightarrow> matcher \<Rightarrow> string list \<Rightarrow> string list \<Rightarrow> real" where
  "spec_METEOR stem synonym predictions references =
     mean (map (\<lambda>(c, r). meteor_pair [exact_match, stem_match stem, synonym] c r)
             (corpus_of predictions references))"

definition spec_metrics_computer ::
  "real \<Rightarrow> (string \<Rightarrow> string list) \<Rightarrow> (string \<Rightarrow> string) \<Rightarrow> matcher \<Rightarrow> metrics_computer" where
  "spec_metrics_computer eps sentences stem synonym =
     \<lparr>compute_BLEU = spec_BLEU eps,
      compute_ROUGE = spec_ROUGE sentences,
      compute_METEOR = spec_METEOR stem synonym\<rparr>"

text \<open>Parameters for a concrete instance: no sentence splitting, no stemming, no synonyms.\<close>

definition one_sentence :: "string \<Rightarrow> string list" where
  "one_sentence t = [t]"

definition identity_stem :: "string \<Rightarrow> string" where
  "identity_stem w = w"

definition no_synonyms :: matcher where
  "no_synonyms a b = False"

section \<open>Concrete inputs\<close>

text \<open>
  Inputs on which the theorems below are instantiated: cells that hold Python booleans
  besides strings, scorers that return the share of positions where prediction and
  reference are the same text, a ground truth of two rows, a submission that covers both
  ids (with one missing note on each side), a submission that shares no id with it, a
  submission of three rows of which two match the ground truth, a submission with repeated
  ids, and a store that holds the covering submission at address 0 and the ground truth at
  address 1.
\<close>

definition py_str_bool :: "bool \<Rightarrow> string" where
  "py_str_bool b = (if b then ''True'' else ''False'')"

definition exact_match_rate :: "string list \<Rightarrow> string list \<Rightarrow> real" where
  "exact_match_rate p r = real (length (filter (\<lambda>(a, b). a = b) (zip p r))) / real (length p)"

definition example_scorers :: metrics_computer where
  "example_scorers =
     \<lparr>compute_BLEU = exact_match_rate,
      compute_ROUGE = (\<lambda>p r. \<lparr>rouge1 = exact_match_rate p r, rouge2 = exact_match_rate p r,
                               rougeL = exact_match_rate p r, rougeLsum = exact_match_rate p r\<rparr>),
      compute_METEOR = exact_match_rate\<rparr>"

definition example_ground_truth :: "(nat, bool) ground_truth_row list" where
  "example_ground_truth =
     [\<lparr>gt_id = 1, gt_note = Str ''fever'', gt_dialogue = Str ''d1''\<rparr>,
      \<lparr>gt_id = 2, gt_note = NaN, gt_dialogue = Str ''d2''\<rparr>]"

definition example_submission :: "(nat, bool) submission_row list" where
  "example_submission =
     [\<lparr>sub_id = 2, sub_generated_note = NaN\<rparr>,
      \<lparr>sub_id = 1, sub_generated_note = Str ''cough''\<rparr>]"

definition example_unmatched :: "(nat, bool) submission_row list" where
  "example_unmatched = [\<lparr>sub_id = 7, sub_generated_note = Str ''cough''\<rparr>]"


definition example_duplicates :: "(nat, bool) submission_row list" where
  "example_duplicates =
     [\<lparr>sub_id = 1, sub_generated_note = Str ''cough''\<rparr>,
      \<lparr>sub_id = 1, sub_generated_note = Str ''fever''\<rparr>,
      \<lparr>sub_id = 2, sub_generated_note = Str ''rash''\<rparr>,
      \<lparr>sub_id = 2, sub_generated_note = NaN\<rparr>,
      \<lparr>sub_id = 2, sub_generated_note = Other True\<rparr>]"

definition example_store :: "(nat, bool) store" where
  "example_store = [Submission_frame example_submission, Ground_truth_frame example_ground_truth]"

section \<open>Properties of the merge and of the two lists\<close>

lemma length_predictions_of: "length (predictions_of py_str merged) = length merged"
  by (simp add: predictions_of_def tolist_def astype_str_def fillna_def)

lemma length_references_of: "length (references_of py_str merged) = length merged"
  by (simp add: references_of_def tolist_def astype_str_def fillna_def)

lemma merge_inner_Nil_iff:
  "merge_inner gt sub = [] \<longleftrightarrow> (\<forall>g\<in>set gt. \<forall>s\<in>set sub. sub_id s \<noteq> gt_id g)"
  by (auto simp: merge_inner_def matching_rows_def filter_empty_conv)

lemma length_merge_inner:
  "length (merge_inner gt sub) = sum_list (map (\<lambda>g. length (matching_rows g sub)) gt)"
  by (simp add: merge_inner_def length_concat comp_def)

lemma matching_rows_Nil:
  "k \<notin> sub_id ` set sub \<Longrightarrow> filter (\<lambda>s. sub_id s = k) sub = []"
  by (induction sub) auto

lemma matching_rows_le_one:
  assumes "distinct (map sub_id sub)"
  shows "length (matching_rows g sub) \<le> 1"
  using assms
  by (induction sub) (auto simp: matching_rows_def matching_rows_Nil)

lemma length_merge_inner_le:
  assumes "distinct (map sub_id sub)"
  shows "length (merge_inner gt sub) \<le> length gt"
proof -
  have "sum_list (map (\<lambda>g. length (matching_rows g sub)) gt) \<le> sum_list (map (\<lambda>g. 1) gt)"
    using matching_rows_le_one [OF assms] by (intro sum_list_mono) simp
  then show ?thesis
    by (simp add: length_merge_inner sum_list_triv)
qed

lemma merge_inner_Nil_left: "merge_inner [] sub = []"
  by (simp add: merge_inner_def)

lemma predictions_of_nth:
  assumes "i < length merged"
  shows "predictions_of py_str merged ! i =
           (case m_generated_note (merged ! i) of NaN \<Rightarrow> '''' | Str s \<Rightarrow> s | Other x \<Rightarrow> py_str x)"
  using assms
  by (simp add: predictions_of_def tolist_def astype_str_def fillna_def split: cell.splits)

lemma references_of_nth:
  assumes "i < length merged"
  shows "references_of py_str merged ! i =
           (case m_note (merged ! i) of NaN \<Rightarrow> '''' | Str s \<Rightarrow> s | Other x \<Rightarrow> py_str x)"
  using assms
  by (simp add: references_of_def tolist_def astype_str_def fillna_def split: cell.splits)

section \<open>The two ways out of \<^verbatim>\<open>evaluate_submission\<close>\<close>

lemma evaluate_submission_returns:
  assumes "merge_inner gt sub \<noteq> []"
  shows "evaluate_submission py_str mc sub gt =
           (warnings gt (merge_inner gt sub) @
              scoring_events (predictions_of py_str (merge_inner gt sub))
                             (references_of py_str (merge_inner gt sub)),
            Inr (build_results mc (predictions_of py_str (merge_inner gt sub))
                   (references_of py_str (merge_inner gt sub))
                   (length (merge_inner gt sub)) (length gt)))"
  using assms by (simp add: evaluate_submission_def Let_def)

lemma evaluate_submission_exits:
  assumes "merge_inner gt sub = []"
  shows "evaluate_submission py_str mc sub gt =
           (warnings gt [] @ [Print Error_no_matching_ids], Inl (SystemExit 1))"
  using assms by (simp add: evaluate_submission_def Let_def)

lemma snd_evaluate_submission_Inr:
  assumes "snd (evaluate_submission py_str mc sub gt) = Inr res"
  shows "merge_inner gt sub \<noteq> [] \<and>
         res = build_results mc (predictions_of py_str (merge_inner gt sub))
                 (references_of py_str (merge_inner gt sub)) (length (merge_inner gt sub)) (length gt)"
  using assms by (auto simp: evaluate_submission_def Let_def split: if_splits)

lemma no_scoring_in_warnings: "filter is_scoring (warnings gt merged) = []"
  by (simp add: warnings_def is_scoring_def)

lemma New_MetricsComputer_in_trace:
  assumes "New_MetricsComputer p r \<in> set (fst (evaluate_submission py_str mc sub gt))"
  shows "p = predictions_of py_str (merge_inner gt sub) \<and> r = references_of py_str (merge_inner gt sub)"
  using assms
  by (auto simp: evaluate_submission_def Let_def warnings_def scoring_events_def split: if_splits)

lemma dom_build_results:
  "dom (build_results mc p r n m) =
     {''bleu'', ''rouge1'', ''rouge2'', ''rougeL'', ''rougeLsum'', ''meteor'', ''num_samples'', ''coverage''}"
  by (auto simp: build_results_def Let_def)

section \<open>Operations on the store\<close>

lemma lookup_append_old: "lookup h a = Some v \<Longrightarrow> lookup (h @ hs) a = Some v"
  by (auto simp: lookup_def nth_append split: if_splits)

lemma lookup_append_new: "lookup (h @ v # hs) (length h) = Some v"
  by (simp add: lookup_def)

lemma merge_store_frames:
  assumes "lookup h left = Some (Ground_truth_frame gt)"
    and "lookup h right = Some (Submission_frame sub)"
  shows "merge_store left right h = Some (length h, h @ [Merged_frame (merge_inner gt sub)])"
  using assms by (simp add: merge_store_def alloc_def)

lemma column_tolist_store_frame:
  assumes "lookup h frame = Some (Merged_frame merged)"
  shows "column_tolist_store py_str frame col h =
           Some (length h + 3,
                 h @ [Series (map (case col of Col_generated_note \<Rightarrow> m_generated_note
                                             | Col_note \<Rightarrow> m_note) merged),
                      Series (fillna '''' (map (case col of Col_generated_note \<Rightarrow> m_generated_note
                                             | Col_note \<Rightarrow> m_note) merged)),
                      Str_series (astype_str py_str (fillna '''' (map (case col of Col_generated_note \<Rightarrow> m_generated_note
                                             | Col_note \<Rightarrow> m_note) merged))),
                      Py_list (tolist (astype_str py_str (fillna '''' (map (case col of Col_generated_note \<Rightarrow> m_generated_note
                                             | Col_note \<Rightarrow> m_note) merged))))])"
  using assms
  by (simp add: column_tolist_store_def getitem_store_def fillna_store_def astype_str_store_def
      tolist_store_def alloc_def lookup_def nth_append)

section \<open>The concrete inputs, evaluated\<close>

lemma example_merge:
  "merge_inner example_ground_truth example_submission =
     [\<lparr>m_id = 1, m_note = Str ''fever'', m_dialogue = Str ''d1'', m_generated_note = Str ''cough''\<rparr>,
      \<lparr>m_id = 2, m_note = NaN, m_dialogue = Str ''d2'', m_generated_note = NaN\<rparr>]"
  by (simp add: merge_inner_def matching_rows_def join_rows_def example_ground_truth_def
      example_submission_def)

lemma example_merge_length: "length (merge_inner example_ground_truth example_submission) = 2"
  by (simp add: example_merge)

lemma example_merge_not_Nil: "merge_inner example_ground_truth example_submission \<noteq> []"
  by (simp add: example_merge)

lemma example_predictions:
  "predictions_of py_str_bool (merge_inner example_ground_truth example_submission) = [''cough'', []]"
  by (simp add: example_merge predictions_of_def tolist_def astype_str_def fillna_def)

lemma example_references:
  "references_of py_str_bool (merge_inner example_ground_truth example_submission) = [''fever'', []]"
  by (simp add: example_merge references_of_def tolist_def astype_str_def fillna_def)

lemma example_unmatched_merge: "merge_inner example_ground_truth example_unmatched = []"
  by (simp add: merge_inner_def matching_rows_def example_ground_truth_def example_unmatched_def)

lemma example_exact_match_rate: "exact_match_rate [''cough'', []] [''fever'', []] = 1 / 2"
  by (simp add: exact_match_rate_def)

lemma example_duplicates_length: "length (merge_inner example_ground_truth example_duplicates) = 5"
  by (simp add: merge_inner_def matching_rows_def example_ground_truth_def example_duplicates_def)







section \<open>Bounds of the specification's scorers\<close>

lemma sum_list_count_list_remdups:
  "(\<Sum>g\<leftarrow>remdups xs. count_list xs g) = length xs"
proof -
  have "(\<Sum>g\<leftarrow>remdups xs. count_list xs g) = (\<Sum>g\<in>set xs. count_list xs g)"
    by (simp add: sum_list_distinct_conv_sum_set)
  also have "\<dots> = length xs"
    by (rule sum_count_set) simp_all
  finally show ?thesis .
qed

lemma clipped_count_le_left: "clipped_count cs rs \<le> length cs"
proof -
  have "clipped_count cs rs \<le> (\<Sum>g\<leftarrow>remdups cs. count_list cs g)"
    unfolding clipped_count_def by (rule sum_list_mono) simp
  then show ?thesis
    by (simp add: sum_list_count_list_remdups)
qed

lemma clipped_count_le_right: "clipped_count cs rs \<le> length rs"
proof -
  have "clipped_count cs rs \<le> (\<Sum>g\<leftarrow>remdups cs. count_list rs g)"
    unfolding clipped_count_def by (rule sum_list_mono) simp
  also have "\<dots> = (\<Sum>g\<in>set cs. count_list rs g)"
    by (simp add: sum_list_distinct_conv_sum_set)
  also have "\<dots> = (\<Sum>g\<in>set cs \<inter> set rs. count_list rs g)"
    by (rule sum.mono_neutral_right) (auto simp: count_list_0_iff)
  also have "\<dots> \<le> (\<Sum>g\<in>set rs. count_list rs g)"
    by (rule sum_mono2) auto
  also have "\<dots> = length rs"
    by (rule sum_count_set) simp_all
  finally show ?thesis .
qed

lemma ratio_bounds:
  assumes "a \<le> b"
  shows "0 \<le> ratio a b \<and> ratio a b \<le> 1"
  using assms by (simp add: ratio_def)

lemma f_measure_bounds:
  assumes "0 \<le> p" "p \<le> 1" "0 \<le> r" "r \<le> 1"
  shows "0 \<le> f_measure p r \<and> f_measure p r \<le> 1"
proof (cases "p + r = 0")
  case True
  then show ?thesis by (simp add: f_measure_def)
next
  case False
  with assms have pos: "0 < p + r" by linarith
  have "p * r \<le> p * 1"
    by (rule mult_left_mono) (use assms in simp_all)
  moreover have "p * r \<le> 1 * r"
    by (rule mult_right_mono) (use assms in simp_all)
  ultimately have "2 * p * r \<le> p + r" by linarith
  moreover have "0 \<le> 2 * p * r" using assms by simp
  ultimately show ?thesis
    using pos False by (simp add: f_measure_def)
qed

lemma mean_bounds:
  assumes "\<And>x. x \<in> set xs \<Longrightarrow> 0 \<le> x \<and> x \<le> 1"
  shows "0 \<le> mean xs \<and> mean xs \<le> 1"
proof (cases "xs = []")
  case True
  then show ?thesis by (simp add: mean_def)
next
  case False
  have lo: "0 \<le> sum_list xs"
    using assms by (intro sum_list_nonneg) simp
  have "sum_list xs \<le> sum_list (map (\<lambda>x. 1) xs)"
    using assms by (intro sum_list_mono [where f = "\<lambda>x. x" and xs = xs, simplified]) simp
  then have hi: "sum_list xs \<le> real (length xs)"
    by (simp add: sum_list_triv)
  from False have "0 < real (length xs)" by simp
  with lo hi show ?thesis
    using False by (simp add: mean_def)
qed

lemma prod_list_unit_interval:
  assumes "\<And>x. x \<in> set xs \<Longrightarrow> 0 \<le> x \<and> x \<le> (1::real)"
  shows "0 \<le> prod_list xs \<and> prod_list xs \<le> 1"
  using assms
proof (induction xs)
  case Nil
  then show ?case by simp
next
  case (Cons x xs)
  then have x: "0 \<le> x" "x \<le> 1" and p: "0 \<le> prod_list xs" "prod_list xs \<le> 1"
    by simp_all
  have "x * prod_list xs \<le> 1 * 1"
    using x p by (intro mult_mono) simp_all
  with x p show ?case by simp
qed

lemma geometric_mean_bounds:
  assumes "\<And>p. p \<in> set ps \<Longrightarrow> 0 \<le> p \<and> p \<le> 1"
  shows "0 \<le> geometric_mean ps \<and> geometric_mean ps \<le> 1"
  unfolding geometric_mean_def
proof (rule prod_list_unit_interval)
  fix x assume "x \<in> set (map (\<lambda>p. p powr (1 / 4)) ps)"
  then obtain p where "p \<in> set ps" and x: "x = p powr (1 / 4)" by auto
  with assms have "0 \<le> p" "p \<le> 1" by simp_all
  then show "0 \<le> x \<and> x \<le> 1"
    unfolding x by (simp add: powr_le1)
qed

lemma brevity_penalty_bounds:
  assumes "0 < c"
  shows "0 \<le> brevity_penalty c r \<and> brevity_penalty c r \<le> 1"
proof (cases "r \<le> c")
  case True
  then show ?thesis by (simp add: brevity_penalty_def)
next
  case False
  then have "real c < real r" by simp
  with assms have "1 < real r / real c" by simp
  then have "exp (1 - real r / real c) \<le> 1" by simp
  with False show ?thesis by (simp add: brevity_penalty_def)
qed

lemma matched_le_total:
  "(\<Sum>(c, r)\<leftarrow>corpus. clipped_count (ngrams n c) (ngrams n r))
     \<le> (\<Sum>(c, r)\<leftarrow>corpus. length (ngrams n c))"
  by (rule sum_list_mono) (auto simp: clipped_count_le_left)

lemma modified_precision_bounds:
  assumes "0 \<le> eps" "eps \<le> 1"
  shows "0 \<le> modified_precision eps n corpus \<and> modified_precision eps n corpus \<le> 1"
proof -
  define m where "m = (\<Sum>(c, r)\<leftarrow>corpus. clipped_count (ngrams n c) (ngrams n r))"
  define t where "t = (\<Sum>(c, r)\<leftarrow>corpus. length (ngrams n c))"
  have le: "m \<le> t"
    unfolding m_def t_def by (rule matched_le_total)
  have mp: "modified_precision eps n corpus =
      (if t = 0 then 0 else if m = 0 then eps / real t else real m / real t)"
    by (simp add: modified_precision_def Let_def m_def t_def)
  show ?thesis
  proof (cases "t = 0")
    case True
    then show ?thesis by (simp add: mp)
  next
    case False
    then have t: "1 \<le> real t" by simp
    have "eps / real t \<le> 1" using assms t by simp
    moreover have "0 \<le> eps / real t" using assms by simp
    moreover have "real m / real t \<le> 1" using le False by simp
    ultimately show ?thesis
      using False by (simp add: mp)
  qed
qed

lemma bleu_score_bounds:
  assumes "0 \<le> eps" "eps \<le> 1"
  shows "0 \<le> bleu_score eps corpus \<and> bleu_score eps corpus \<le> 1"
proof -
  define c where "c = (\<Sum>(c, r)\<leftarrow>corpus. length c)"
  define r where "r = (\<Sum>(c, r)\<leftarrow>corpus. length r)"
  define g where "g = geometric_mean (map (\<lambda>n. modified_precision eps n corpus) [1, 2, 3, 4])"
  have bl: "bleu_score eps corpus = (if c = 0 then 0 else brevity_penalty c r * g)"
    by (simp add: bleu_score_def Let_def c_def r_def g_def)
  show ?thesis
  proof (cases "c = 0")
    case True
    then show ?thesis by (simp add: bl)
  next
    case False
    then have "0 < c" by simp
    then have b: "0 \<le> brevity_penalty c r" "brevity_penalty c r \<le> 1"
      using brevity_penalty_bounds by blast+
    have g: "0 \<le> g" "g \<le> 1"
      unfolding g_def
      using geometric_mean_bounds [of "map (\<lambda>n. modified_precision eps n corpus) [1, 2, 3, 4]"]
        modified_precision_bounds [OF assms] by auto
    have "brevity_penalty c r * g \<le> 1 * 1"
      using b g by (intro mult_mono) simp_all
    moreover have "0 \<le> brevity_penalty c r * g"
      using b g by simp
    ultimately show ?thesis
      using False by (simp add: bl)
  qed
qed

lemma rouge_n_pair_bounds: "0 \<le> rouge_n_pair n c r \<and> rouge_n_pair n c r \<le> 1"
  unfolding rouge_n_pair_def Let_def
  using ratio_bounds [OF clipped_count_le_left] ratio_bounds [OF clipped_count_le_right]
  by (intro f_measure_bounds) blast+

lemma lcs_le_left: "lcs xs ys \<le> length xs"
  by (induction xs ys rule: lcs.induct) auto

lemma lcs_le_right: "lcs xs ys \<le> length ys"
  by (induction xs ys rule: lcs.induct) auto

lemma rouge_l_pair_bounds: "0 \<le> rouge_l_pair c r \<and> rouge_l_pair c r \<le> 1"
  unfolding rouge_l_pair_def
  using ratio_bounds [OF lcs_le_left] ratio_bounds [OF lcs_le_right]
  by (intro f_measure_bounds) blast+

lemma length_lcs_positions: "length (lcs_positions xs k ys) \<le> length xs"
  by (induction xs k ys rule: lcs_positions.induct) auto

lemma lcs_positions_range:
  "p \<in> set (lcs_positions xs k ys) \<Longrightarrow> k \<le> p \<and> p < k + length ys"
  by (induction xs k ys rule: lcs_positions.induct) (fastforce split: if_splits)+

lemma set_lcs_positions: "set (lcs_positions xs k ys) \<subseteq> {k..<k + length ys}"
  using lcs_positions_range by fastforce

lemma union_lcs_hits_le_candidate: "union_lcs_hits ss c \<le> length c"
proof -
  let ?ps = "remdups (concat (map (\<lambda>s. lcs_positions s 0 c) ss))"
  have "set ?ps \<subseteq> {0..<length c}"
    using set_lcs_positions [of _ 0 c] by auto
  then have "card (set ?ps) \<le> card {0..<length c}"
    by (intro card_mono) simp_all
  moreover have "card (set ?ps) = length ?ps"
    by (rule distinct_card) simp
  ultimately show ?thesis
    by (simp add: union_lcs_hits_def)
qed

lemma union_lcs_hits_le_reference: "union_lcs_hits ss c \<le> length (concat ss)"
proof -
  have "union_lcs_hits ss c \<le> length (concat (map (\<lambda>s. lcs_positions s 0 c) ss))"
    unfolding union_lcs_hits_def by (rule length_remdups_leq)
  also have "\<dots> = (\<Sum>s\<leftarrow>ss. length (lcs_positions s 0 c))"
    by (simp add: length_concat comp_def)
  also have "\<dots> \<le> (\<Sum>s\<leftarrow>ss. length s)"
    by (rule sum_list_mono) (simp add: length_lcs_positions)
  also have "\<dots> = length (concat ss)"
    by (simp add: length_concat)
  finally show ?thesis .
qed

lemma rouge_lsum_pair_bounds:
  "0 \<le> rouge_lsum_pair sentences c r \<and> rouge_lsum_pair sentences c r \<le> 1"
  unfolding rouge_lsum_pair_def Let_def
  using ratio_bounds [OF union_lcs_hits_le_candidate] ratio_bounds [OF union_lcs_hits_le_reference]
  by (intro f_measure_bounds) blast+

lemma fold_choice:
  assumes "P init" and "\<And>e. e \<in> set es \<Longrightarrow> P (f e)"
  shows "P (fold (\<lambda>e best. if better (f e) best then f e else best) es init)"
  using assms by (induction es arbitrary: init) auto

lemma set_free_pairs:
  assumes "(i, j) \<in> set (free_pairs m c r al)"
  shows "i < length c \<and> j < length r \<and> i \<notin> set (map fst al) \<and> j \<notin> set (map snd al)"
  using assms by (auto simp: free_pairs_def)

lemma valid_alignment_extend:
  assumes v: "valid_alignment c r al"
    and e: "e \<in> set (filter one_to_one (subseqs (free_pairs m c r al)))"
  shows "valid_alignment c r (al @ e)"
proof -
  from e have o: "one_to_one e" and s: "e \<in> set (subseqs (free_pairs m c r al))" by simp_all
  from s have "set e \<in> set ` set (subseqs (free_pairs m c r al))"
    by (rule imageI)
  then have sub: "set e \<subseteq> set (free_pairs m c r al)"
    by (simp add: subseqs_powset)
  have f: "i < length c \<and> j < length r \<and> i \<notin> set (map fst al) \<and> j \<notin> set (map snd al)"
    if "(i, j) \<in> set e" for i j
    using that sub set_free_pairs by blast
  have d1: "i \<notin> set (map fst al) \<and> i < length c" if "i \<in> set (map fst e)" for i
  proof -
    from that obtain j where "(i, j) \<in> set e" by force
    with f show ?thesis by blast
  qed
  have d2: "j \<notin> set (map snd al) \<and> j < length r" if "j \<in> set (map snd e)" for j
  proof -
    from that obtain i where "(i, j) \<in> set e" by force
    with f show ?thesis by blast
  qed
  have "set (map fst al) \<inter> set (map fst e) = {}"
    using d1 by blast
  moreover have "set (map snd al) \<inter> set (map snd e) = {}"
    using d2 by blast
  moreover have "set (map fst e) \<subseteq> {0..<length c}"
    using d1 by fastforce
  moreover have "set (map snd e) \<subseteq> {0..<length r}"
    using d2 by fastforce
  ultimately show ?thesis
    using v o by (auto simp: valid_alignment_def one_to_one_def)
qed

lemma valid_align_stage:
  assumes "valid_alignment c r al"
  shows "valid_alignment c r (align_stage c r m al)"
  unfolding align_stage_def
  by (rule fold_choice [where f = "\<lambda>e. al @ e"]) (use assms valid_alignment_extend in auto)

lemma valid_fold_stages:
  assumes "valid_alignment c r al"
  shows "valid_alignment c r (fold (align_stage c r) matchers al)"
  using assms by (induction matchers arbitrary: al) (auto simp: valid_align_stage)

lemma valid_align: "valid_alignment c r (align matchers c r)"
  unfolding align_def
  by (rule valid_fold_stages) (simp add: valid_alignment_def one_to_one_def)

lemma distinct_bounded_length:
  assumes "distinct xs" and "set xs \<subseteq> {0..<n}"
  shows "length xs \<le> n"
proof -
  have "card (set xs) \<le> card {0..<n}"
    using assms(2) by (intro card_mono) simp_all
  with assms(1) show ?thesis
    by (simp add: distinct_card)
qed

lemma valid_alignment_length:
  assumes "valid_alignment c r al"
  shows "length al \<le> length c \<and> length al \<le> length r"
  using assms distinct_bounded_length [of "map fst al" "length c"]
    distinct_bounded_length [of "map snd al" "length r"]
  by (simp add: valid_alignment_def one_to_one_def)

lemma chunks_le_length: "chunks al \<le> length al"
  by (induction al rule: chunks.induct) auto

lemma chunk_count_le_length: "chunk_count al \<le> length al"
  using chunks_le_length [of "sort_key fst al"] by (simp add: chunk_count_def)

lemma meteor_pair_bounds: "0 \<le> meteor_pair matchers c r \<and> meteor_pair matchers c r \<le> 1"
proof -
  define al where "al = align matchers c r"
  define m where "m = length al"
  define p where "p = ratio m (length c)"
  define rc where "rc = ratio m (length r)"
  define fmean where "fmean = (if p = 0 \<and> rc = 0 then 0 else 10 * p * rc / (rc + 9 * p))"
  define penalty where "penalty = 0.5 * (real (chunk_count al) / real m) ^ 3"
  have mp: "meteor_pair matchers c r = (if m = 0 then 0 else fmean * (1 - penalty))"
    by (simp add: meteor_pair_def Let_def al_def m_def p_def rc_def fmean_def penalty_def)
  show ?thesis
  proof (cases "m = 0")
    case True
    then show ?thesis by (simp add: mp)
  next
    case False
    have "valid_alignment c r al"
      unfolding al_def by (rule valid_align)
    then have "m \<le> length c" "m \<le> length r"
      using valid_alignment_length by (auto simp: m_def)
    then have pb: "0 \<le> p" "p \<le> 1" and rb: "0 \<le> rc" "rc \<le> 1"
      using ratio_bounds by (auto simp: p_def rc_def)
    have f: "0 \<le> fmean \<and> fmean \<le> 1"
    proof (cases "p = 0 \<and> rc = 0")
      case True
      then show ?thesis by (simp add: fmean_def)
    next
      case False
      with pb rb have pos: "0 < rc + 9 * p" by auto
      have "p * rc \<le> 1 * rc"
        by (rule mult_right_mono) (use pb rb in simp_all)
      moreover have "p * rc \<le> p * 1"
        by (rule mult_left_mono) (use pb rb in simp_all)
      ultimately have "10 * p * rc \<le> rc + 9 * p" by linarith
      moreover have "0 \<le> 10 * p * rc" using pb rb by simp
      ultimately show ?thesis
        using pos False by (simp add: fmean_def)
    qed
    have q: "0 \<le> real (chunk_count al) / real m" "real (chunk_count al) / real m \<le> 1"
      using chunk_count_le_length [of al] False by (simp_all add: m_def)
    then have "(real (chunk_count al) / real m) ^ 3 \<le> 1"
      by (simp add: power_le_one)
    moreover have "0 \<le> (real (chunk_count al) / real m) ^ 3"
      using q by simp
    ultimately have pen: "0 \<le> 1 - penalty" "1 - penalty \<le> 1"
      by (simp_all add: penalty_def)
    have "fmean * (1 - penalty) \<le> 1 * 1"
      using f pen by (intro mult_mono) simp_all
    moreover have "0 \<le> fmean * (1 - penalty)"
      using f pen by simp
    ultimately show ?thesis
      using False by (simp add: mp)
  qed
qed

lemma spec_BLEU_bounds:
  assumes "0 \<le> eps" "eps \<le> 1"
  shows "0 \<le> spec_BLEU eps p r \<and> spec_BLEU eps p r \<le> 1"
  unfolding spec_BLEU_def by (rule bleu_score_bounds [OF assms])

lemma spec_ROUGE_bounds:
  "0 \<le> rouge1 (spec_ROUGE sentences p r) \<and> rouge1 (spec_ROUGE sentences p r) \<le> 1 \<and>
   0 \<le> rouge2 (spec_ROUGE sentences p r) \<and> rouge2 (spec_ROUGE sentences p r) \<le> 1 \<and>
   0 \<le> rougeL (spec_ROUGE sentences p r) \<and> rougeL (spec_ROUGE sentences p r) \<le> 1 \<and>
   0 \<le> rougeLsum (spec_ROUGE sentences p r) \<and> rougeLsum (spec_ROUGE sentences p r) \<le> 1"
proof -
  have 1: "0 \<le> mean (map (\<lambda>(c, r). rouge_n_pair n c r) xs) \<and>
           mean (map (\<lambda>(c, r). rouge_n_pair n c r) xs) \<le> 1" for n xs
    by (rule mean_bounds) (auto simp: rouge_n_pair_bounds)
  have 2: "0 \<le> mean (map (\<lambda>(c, r). rouge_l_pair c r) xs) \<and>
           mean (map (\<lambda>(c, r). rouge_l_pair c r) xs) \<le> 1" for xs
    by (rule mean_bounds) (auto simp: rouge_l_pair_bounds)
  have 3: "0 \<le> mean (map (\<lambda>(c, r). rouge_lsum_pair sentences c r) xs) \<and>
           mean (map (\<lambda>(c, r). rouge_lsum_pair sentences c r) xs) \<le> 1" for xs
    by (rule mean_bounds) (auto simp: rouge_lsum_pair_bounds)
  show ?thesis
    using 1 2 3 by (simp add: spec_ROUGE_def)
qed

lemma spec_METEOR_bounds:
  "0 \<le> spec_METEOR stem synonym p r \<and> spec_METEOR stem synonym p r \<le> 1"
  unfolding spec_METEOR_def
  by (rule mean_bounds) (auto simp: meteor_pair_bounds)

text \<open>
  The scenario of section 8 of the specification, candidate "the cat sat" against
  reference "the cat sat on the mat": ROUGE-1 has precision 3/3 and recall 3/6, so F1 is
  2/3.
\<close>

lemma tokenize_example_candidate: "tokenize ''The cat sat'' = [''the'', ''cat'', ''sat'']"
  by code_simp

lemma tokenize_example_reference:
  "tokenize ''the cat sat on the mat'' = [''the'', ''cat'', ''sat'', ''on'', ''the'', ''mat'']"
  by code_simp

lemma rouge1_partial_overlap:
  "rouge_n_pair 1 [''the'', ''cat'', ''sat''] [''the'', ''cat'', ''sat'', ''on'', ''the'', ''mat''] = 2 / 3"
  by code_simp

lemma rougeL_partial_overlap:
  "rouge_l_pair [''the'', ''cat'', ''sat''] [''the'', ''cat'', ''sat'', ''on'', ''the'', ''mat''] = 2 / 3"
  by code_simp

lemma meteor_partial_overlap:
  "meteor_pair [exact_match] [''the'', ''cat'', ''sat''] [''the'', ''cat'', ''sat'', ''on'', ''the'', ''mat''] = 265 / 513"
  by code_simp

section \<open>The claims\<close>

text \<open>
  C1. Whenever at least one id of the ground truth also occurs in the submission,
  \<^verbatim>\<open>evaluate_submission\<close> builds one \<^verbatim>\<open>MetricsComputer\<close> from the full lists of
  predictions and references of the merged frame, calls \<^verbatim>\<open>compute_BLEU\<close>,
  \<^verbatim>\<open>compute_ROUGE\<close> and \<^verbatim>\<open>compute_METEOR\<close> once each, and returns one dictionary
  in which \<^verbatim>\<open>bleu, rouge1, rouge2, rougeL, rougeLsum, meteor\<close> are bound to the values
  those calls gave.
\<close>

theorem scorers_invoked_once:
  assumes "\<exists>g\<in>set gt. \<exists>s\<in>set sub. sub_id s = gt_id g"
  shows "filter is_scoring (fst (evaluate_submission py_str mc sub gt)) =
           [New_MetricsComputer (predictions_of py_str (merge_inner gt sub))
                                (references_of py_str (merge_inner gt sub)),
            Call BLEU, Call ROUGE, Call METEOR] \<and>
         (\<exists>res. snd (evaluate_submission py_str mc sub gt) = Inr res \<and>
            res ''bleu'' = Some (PyFloat (compute_BLEU mc (predictions_of py_str (merge_inner gt sub))
                                                      (references_of py_str (merge_inner gt sub)))) \<and>
            res ''rouge1'' = Some (PyFloat (rouge1 (compute_ROUGE mc (predictions_of py_str (merge_inner gt sub))
                                                      (references_of py_str (merge_inner gt sub))))) \<and>
            res ''rouge2'' = Some (PyFloat (rouge2 (compute_ROUGE mc (predictions_of py_str (merge_inner gt sub))
                                                      (references_of py_str (merge_inner gt sub))))) \<and>
            res ''rougeL'' = Some (PyFloat (rougeL (compute_ROUGE mc (predictions_of py_str (merge_inner gt sub))
                                                      (references_of py_str (merge_inner gt sub))))) \<and>
            res ''rougeLsum'' = Some (PyFloat (rougeLsum (compute_ROUGE mc (predictions_of py_str (merge_inner gt sub))
                                                      (references_of py_str (merge_inner gt sub))))) \<and>
            res ''meteor'' = Some (PyFloat (compute_METEOR mc (predictions_of py_str (merge_inner gt sub))
                                                      (references_of py_str (merge_inner gt sub)))))"
proof -
  from assms have ne: "merge_inner gt sub \<noteq> []"
    by (auto simp: merge_inner_Nil_iff)
  have tr: "filter is_scoring (fst (evaluate_submission py_str mc sub gt)) =
           [New_MetricsComputer (predictions_of py_str (merge_inner gt sub))
                                (references_of py_str (merge_inner gt sub)),
            Call BLEU, Call ROUGE, Call METEOR]"
    by (simp add: evaluate_submission_returns [OF ne] no_scoring_in_warnings scoring_events_def
        is_scoring_def)
  have res: "snd (evaluate_submission py_str mc sub gt) =
      Inr (build_results mc (predictions_of py_str (merge_inner gt sub))
             (references_of py_str (merge_inner gt sub)) (length (merge_inner gt sub)) (length gt))"
    by (simp add: evaluate_submission_returns [OF ne])
  show ?thesis
    unfolding res using tr by (simp add: build_results_def Let_def)
qed

theorem scorers_invoked_once_witness:
  "filter is_scoring (fst (evaluate_submission py_str_bool example_scorers example_submission example_ground_truth)) =
     [New_MetricsComputer [''cough'', []] [''fever'', []], Call BLEU, Call ROUGE, Call METEOR] \<and>
   (\<exists>res. snd (evaluate_submission py_str_bool example_scorers example_submission example_ground_truth) = Inr res \<and>
      res ''bleu'' = Some (PyFloat (1 / 2)) \<and> res ''rouge1'' = Some (PyFloat (1 / 2)) \<and>
      res ''rouge2'' = Some (PyFloat (1 / 2)) \<and> res ''rougeL'' = Some (PyFloat (1 / 2)) \<and>
      res ''rougeLsum'' = Some (PyFloat (1 / 2)) \<and> res ''meteor'' = Some (PyFloat (1 / 2)))"
proof -
  have "\<exists>g\<in>set example_ground_truth. \<exists>s\<in>set example_submission. sub_id s = gt_id g"
    by (simp add: example_ground_truth_def example_submission_def)
  from scorers_invoked_once [OF this, of py_str_bool example_scorers]
  show ?thesis
    by (simp add: example_predictions example_references example_scorers_def example_exact_match_rate)
qed

text \<open>
  C2, as stated, at a concrete input. Ground truth with ids 1 and 2, submission with id 7:
  the run ends with \<^verbatim>\<open>SystemExit(1)\<close>, which is not the \<open>InputMismatchError\<close> the
  claim names.
\<close>

theorem no_matching_ids_not_InputMismatchError:
  "snd (evaluate_submission py_str_bool example_scorers example_unmatched example_ground_truth)
     = Inl (SystemExit 1) \<and>
   snd (evaluate_submission py_str_bool example_scorers example_unmatched example_ground_truth)
     \<noteq> Inl InputMismatchError"
  by (simp add: evaluate_submission_exits [OF example_unmatched_merge])

text \<open>
  C2, amended. When submission and ground truth share no id, \<^verbatim>\<open>evaluate_submission\<close>
  prints the warning of missing ids (if the ground truth has a row) and the line
  \<^verbatim>\<open>ERROR: No matching IDs found ...\<close> and ends with \<^verbatim>\<open>sys.exit(1)\<close>: no
  \<^verbatim>\<open>MetricsComputer\<close> is built, no scorer is called, and no result dictionary is
  returned.
\<close>

theorem no_matching_ids_exits:
  assumes "\<forall>g\<in>set gt. \<forall>s\<in>set sub. sub_id s \<noteq> gt_id g"
  shows "snd (evaluate_submission py_str mc sub gt) = Inl (SystemExit 1) \<and>
         filter is_scoring (fst (evaluate_submission py_str mc sub gt)) = [] \<and>
         fst (evaluate_submission py_str mc sub gt) = warnings gt [] @ [Print Error_no_matching_ids]"
proof -
  from assms have e: "merge_inner gt sub = []"
    by (simp add: merge_inner_Nil_iff)
  show ?thesis
    by (simp add: evaluate_submission_exits [OF e] no_scoring_in_warnings is_scoring_def)
qed

theorem no_matching_ids_exits_witness:
  "snd (evaluate_submission py_str_bool example_scorers example_unmatched example_ground_truth)
     = Inl (SystemExit 1) \<and>
   filter is_scoring
     (fst (evaluate_submission py_str_bool example_scorers example_unmatched example_ground_truth)) = [] \<and>
   fst (evaluate_submission py_str_bool example_scorers example_unmatched example_ground_truth)
     = [Print (Warning_missing 2 {1, 2}), Print Error_no_matching_ids]"
proof -
  have h: "\<forall>g\<in>set example_ground_truth. \<forall>s\<in>set example_unmatched. sub_id s \<noteq> gt_id g"
    by (simp add: example_ground_truth_def example_unmatched_def)
  have w: "warnings example_ground_truth [] = [Print (Warning_missing 2 {1, 2})]"
    by (simp add: warnings_def missing_ids_def example_ground_truth_def)
  from no_matching_ids_exits [OF h, of py_str_bool example_scorers] show ?thesis
    by (simp add: w is_scoring_def)
qed




text \<open>
  C4, as stated, at a concrete input. With the two-row ground truth and the submission
  that covers it, the dictionary returned binds \<^verbatim>\<open>num_samples\<close> to the integer 2, so
  its key set is not the set of the six metric names.
\<close>

theorem result_keys_not_six:
  "\<not> isl (snd (evaluate_submission py_str_bool example_scorers example_submission example_ground_truth)) \<and>
   projr (snd (evaluate_submission py_str_bool example_scorers example_submission example_ground_truth))
      ''num_samples'' = Some (PyInt 2) \<and>
   dom (projr (snd (evaluate_submission py_str_bool example_scorers example_submission example_ground_truth)))
     \<noteq> {''bleu'', ''rouge1'', ''rouge2'', ''rougeL'', ''rougeLsum'', ''meteor''}"
proof -
  have "''num_samples'' \<notin> {''bleu'', ''rouge1'', ''rouge2'', ''rougeL'', ''rougeLsum'', ''meteor''}"
    by simp
  moreover have "''num_samples'' \<in> dom (build_results mc p r n m)" for mc p r n m
    by (simp add: dom_build_results)
  ultimately have "dom (build_results mc p r n m)
      \<noteq> {''bleu'', ''rouge1'', ''rouge2'', ''rougeL'', ''rougeLsum'', ''meteor''}" for mc p r n m
    by metis
  then show ?thesis
    by (simp add: evaluate_submission_returns [OF example_merge_not_Nil] example_merge_length)
       (simp add: build_results_def Let_def)
qed

text \<open>
  C4, amended. The dictionary \<^verbatim>\<open>evaluate_submission\<close> returns has exactly eight keys:
  the six metric names and the metadata \<^verbatim>\<open>num_samples\<close> and \<^verbatim>\<open>coverage\<close>. The six
  metric names and \<^verbatim>\<open>coverage\<close> are bound to floats, \<^verbatim>\<open>num_samples\<close> to an integer.
\<close>

theorem result_keys:
  assumes "snd (evaluate_submission py_str mc sub gt) = Inr res"
  shows "dom res = {''bleu'', ''rouge1'', ''rouge2'', ''rougeL'', ''rougeLsum'', ''meteor'',
                    ''num_samples'', ''coverage''} \<and>
         (\<forall>k\<in>{''bleu'', ''rouge1'', ''rouge2'', ''rougeL'', ''rougeLsum'', ''meteor'', ''coverage''}.
             \<exists>x. res k = Some (PyFloat x)) \<and>
         (\<exists>n. res ''num_samples'' = Some (PyInt n))"
proof -
  from snd_evaluate_submission_Inr [OF assms] obtain p r n m where
    res: "res = build_results mc p r n m" by blast
  show ?thesis
    unfolding res by (simp add: dom_build_results) (simp add: build_results_def Let_def)
qed

theorem result_keys_witness:
  "(\<exists>res. snd (evaluate_submission py_str_bool example_scorers example_submission example_ground_truth) = Inr res \<and>
     dom res = {''bleu'', ''rouge1'', ''rouge2'', ''rougeL'', ''rougeLsum'', ''meteor'',
                    ''num_samples'', ''coverage''} \<and>
     (\<exists>x. res ''bleu'' = Some (PyFloat x)) \<and> (\<exists>n. res ''num_samples'' = Some (PyInt n)))"
proof -
  obtain res where r: "snd (evaluate_submission py_str_bool example_scorers example_submission example_ground_truth) = Inr res"
    by (simp add: evaluate_submission_returns [OF example_merge_not_Nil])
  from result_keys [OF r] r show ?thesis
    by simp
qed

text \<open>
  C5. The two lists the \<^verbatim>\<open>MetricsComputer\<close> is built from hold, at every row of the
  merged frame, the empty string where the \<^verbatim>\<open>generated_note\<close> (for the predictions) or
  the \<^verbatim>\<open>note\<close> (for the references) is missing, the cell's text where it is a string,
  and Python's \<^verbatim>\<open>str\<close> of the cell otherwise. Both lists are lists of strings (their
  type in the model).
\<close>

theorem missing_values_coerced:
  assumes "New_MetricsComputer p r \<in> set (fst (evaluate_submission py_str mc sub gt))"
    and "i < length (merge_inner gt sub)"
  shows "(m_generated_note (merge_inner gt sub ! i) = NaN \<longrightarrow> p ! i = '''') \<and>
         (m_note (merge_inner gt sub ! i) = NaN \<longrightarrow> r ! i = '''') \<and>
         p ! i = (case m_generated_note (merge_inner gt sub ! i) of
                    NaN \<Rightarrow> '''' | Str s \<Rightarrow> s | Other x \<Rightarrow> py_str x) \<and>
         r ! i = (case m_note (merge_inner gt sub ! i) of
                    NaN \<Rightarrow> '''' | Str s \<Rightarrow> s | Other x \<Rightarrow> py_str x)"
proof -
  from New_MetricsComputer_in_trace [OF assms(1)]
  have p: "p = predictions_of py_str (merge_inner gt sub)"
    and r: "r = references_of py_str (merge_inner gt sub)" by simp_all
  show ?thesis
    unfolding p r
    by (simp add: predictions_of_nth [OF assms(2)] references_of_nth [OF assms(2)])
qed

theorem missing_values_coerced_witness:
  "New_MetricsComputer [''cough'', ''''] [''fever'', '''']
     \<in> set (fst (evaluate_submission py_str_bool example_scorers example_submission example_ground_truth)) \<and>
   1 < length (merge_inner example_ground_truth example_submission) \<and>
   m_generated_note (merge_inner example_ground_truth example_submission ! 1) = NaN \<and>
   m_note (merge_inner example_ground_truth example_submission ! 1) = NaN \<and>
   [''cough'', ''''] ! 1 = '''' \<and> [''fever'', ''''] ! 1 = ''''"
proof -
  have m: "New_MetricsComputer [''cough'', ''''] [''fever'', '''']
     \<in> set (fst (evaluate_submission py_str_bool example_scorers example_submission example_ground_truth))"
    by (simp add: evaluate_submission_returns [OF example_merge_not_Nil] scoring_events_def
        example_predictions example_references)
  have l: "1 < length (merge_inner example_ground_truth example_submission)"
    by (simp add: example_merge_length)
  from missing_values_coerced [OF m l] l m show ?thesis
    by (simp add: example_merge)
qed

text \<open>
  C6. Whatever the texts of the two frames are, when \<^verbatim>\<open>evaluate_submission\<close> runs with
  the scorers of the specification (any smoothing constant between 0 and 1, any sentence
  segmentation, stemmer and synonym relation) and returns, each of the six values it
  reports under \<^verbatim>\<open>bleu, rouge1, rouge2, rougeL, rougeLsum, meteor\<close> lies in the closed
  interval from 0 to 1.
\<close>

theorem reported_metrics_in_unit_interval:
  assumes "0 \<le> eps" and "eps \<le> 1"
    and "snd (evaluate_submission py_str (spec_metrics_computer eps sentences stem synonym) sub gt)
           = Inr res"
  shows "\<forall>k\<in>{''bleu'', ''rouge1'', ''rouge2'', ''rougeL'', ''rougeLsum'', ''meteor''}.
           \<exists>x. res k = Some (PyFloat x) \<and> 0 \<le> x \<and> x \<le> 1"
proof -
  from snd_evaluate_submission_Inr [OF assms(3)] obtain p r n m where
    res: "res = build_results (spec_metrics_computer eps sentences stem synonym) p r n m"
    by blast
  show ?thesis
    unfolding res
    using spec_BLEU_bounds [OF assms(1,2), of p r] spec_ROUGE_bounds [of sentences p r]
      spec_METEOR_bounds [of stem synonym p r]
    by (simp add: build_results_def Let_def spec_metrics_computer_def)
qed

theorem reported_metrics_in_unit_interval_witness:
  "(0::real) \<le> 1 / 10 \<and> (1 / 10::real) \<le> 1 \<and>
   (\<exists>res. snd (evaluate_submission py_str_bool
                 (spec_metrics_computer (1 / 10) one_sentence identity_stem no_synonyms)
                 example_submission example_ground_truth) = Inr res \<and>
      (\<exists>x. res ''bleu'' = Some (PyFloat x) \<and> 0 \<le> x \<and> x \<le> 1) \<and>
      (\<exists>x. res ''rouge1'' = Some (PyFloat x) \<and> 0 \<le> x \<and> x \<le> 1) \<and>
      (\<exists>x. res ''rouge2'' = Some (PyFloat x) \<and> 0 \<le> x \<and> x \<le> 1) \<and>
      (\<exists>x. res ''rougeL'' = Some (PyFloat x) \<and> 0 \<le> x \<and> x \<le> 1) \<and>
      (\<exists>x. res ''rougeLsum'' = Some (PyFloat x) \<and> 0 \<le> x \<and> x \<le> 1) \<and>
      (\<exists>x. res ''meteor'' = Some (PyFloat x) \<and> 0 \<le> x \<and> x \<le> 1))"
proof -
  have e: "(0::real) \<le> 1 / 10" "(1 / 10::real) \<le> 1" by simp_all
  obtain res where r: "snd (evaluate_submission py_str_bool
                 (spec_metrics_computer (1 / 10) one_sentence identity_stem no_synonyms)
                 example_submission example_ground_truth) = Inr res"
    by (simp add: evaluate_submission_returns [OF example_merge_not_Nil])
  from reported_metrics_in_unit_interval [OF e r] r show ?thesis
    by simp
qed

text \<open>
  C8. Called on a store in which two addresses hold the submission frame and the ground
  truth frame, \<^verbatim>\<open>evaluate_submission\<close> runs, gives the events and the outcome of the
  function on the two frames' values, and leaves both frames, and every other object that
  was in the store before the call, as they were: the merged frame, the filled and
  converted columns and the two lists are new objects.
\<close>

theorem inputs_unchanged:
  assumes "lookup h submission_df = Some (Submission_frame sub)"
    and "lookup h ground_truth_df = Some (Ground_truth_frame gt)"
  shows "\<exists>h'. evaluate_submission_store py_str mc submission_df ground_truth_df h
                 = Some (h', evaluate_submission py_str mc sub gt) \<and>
              lookup h' submission_df = Some (Submission_frame sub) \<and>
              lookup h' ground_truth_df = Some (Ground_truth_frame gt) \<and>
              take (length h) h' = h"
proof -
  let ?m = "merge_inner gt sub"
  let ?h1 = "h @ [Merged_frame ?m]"
  have m: "merge_store ground_truth_df submission_df h = Some (length h, ?h1)"
    by (rule merge_store_frames [OF assms(2) assms(1)])
  have l1: "lookup ?h1 (length h) = Some (Merged_frame ?m)"
    by (rule lookup_append_new)
  have g1: "lookup ?h1 ground_truth_df = Some (Ground_truth_frame gt)"
    by (rule lookup_append_old [OF assms(2)])
  have s1: "lookup ?h1 submission_df = Some (Submission_frame sub)"
    by (rule lookup_append_old [OF assms(1)])
  show ?thesis
  proof (cases "?m = []")
    case True
    then have "evaluate_submission_store py_str mc submission_df ground_truth_df h
                 = Some (?h1, evaluate_submission py_str mc sub gt)"
      using l1 g1 by (simp add: evaluate_submission_store_def m evaluate_submission_exits)
    with g1 s1 show ?thesis by simp
  next
    case False
    let ?cp = "[Series (map m_generated_note ?m), Series (fillna '''' (map m_generated_note ?m)),
                Str_series (astype_str py_str (fillna '''' (map m_generated_note ?m))),
                Py_list (predictions_of py_str ?m)]"
    let ?cr = "[Series (map m_note ?m), Series (fillna '''' (map m_note ?m)),
                Str_series (astype_str py_str (fillna '''' (map m_note ?m))),
                Py_list (references_of py_str ?m)]"
    let ?h2 = "?h1 @ ?cp"
    let ?h3 = "?h2 @ ?cr"
    have p: "column_tolist_store py_str (length h) Col_generated_note ?h1 = Some (length ?h1 + 3, ?h2)"
      using column_tolist_store_frame [OF l1, of py_str Col_generated_note]
      by (simp add: predictions_of_def)
    have l2: "lookup ?h2 (length h) = Some (Merged_frame ?m)"
      by (rule lookup_append_old [OF l1])
    have r: "column_tolist_store py_str (length h) Col_note ?h2 = Some (length ?h2 + 3, ?h3)"
      using column_tolist_store_frame [OF l2, of py_str Col_note]
      by (simp add: references_of_def)
    have lp: "lookup ?h3 (length ?h1 + 3) = Some (Py_list (predictions_of py_str ?m))"
      by (simp add: lookup_def nth_append)
    have lr: "lookup ?h3 (length ?h2 + 3) = Some (Py_list (references_of py_str ?m))"
      by (simp add: lookup_def nth_append)
    have "evaluate_submission_store py_str mc submission_df ground_truth_df h
                 = Some (?h3, evaluate_submission py_str mc sub gt)"
      using False l1 g1 p r lp lr
      by (simp add: evaluate_submission_store_def m evaluate_submission_returns [OF False])
    moreover have "lookup ?h3 submission_df = Some (Submission_frame sub)"
      by (intro lookup_append_old s1)
    moreover have "lookup ?h3 ground_truth_df = Some (Ground_truth_frame gt)"
      by (intro lookup_append_old g1)
    moreover have "take (length h) ?h3 = h"
      by simp
    ultimately show ?thesis by blast
  qed
qed

theorem inputs_unchanged_witness:
  "lookup example_store 0 = Some (Submission_frame example_submission) \<and>
   lookup example_store 1 = Some (Ground_truth_frame example_ground_truth) \<and>
   (\<exists>h'. evaluate_submission_store py_str_bool example_scorers 0 1 example_store
            = Some (h', evaluate_submission py_str_bool example_scorers example_submission
                          example_ground_truth) \<and>
         lookup h' 0 = Some (Submission_frame example_submission) \<and>
         lookup h' 1 = Some (Ground_truth_frame example_ground_truth) \<and>
         take 2 h' = example_store)"
proof -
  have s: "lookup example_store 0 = Some (Submission_frame example_submission)"
    by (simp add: lookup_def example_store_def)
  have g: "lookup example_store 1 = Some (Ground_truth_frame example_ground_truth)"
    by (simp add: lookup_def example_store_def)
  have l: "length example_store = 2"
    by (simp add: example_store_def)
  from inputs_unchanged [OF s g, of py_str_bool example_scorers] s g show ?thesis
    by (simp add: l)
qed

text \<open>
  C9. For every pair of input frames the predictions and the references have the same
  length, the number of rows of the inner merge of ground truth and submission on the id;
  every \<^verbatim>\<open>MetricsComputer\<close> the function builds is built from two lists of that
  length.
\<close>

theorem corpus_lengths_equal:
  "length (predictions_of py_str (merge_inner gt sub)) = length (merge_inner gt sub) \<and>
   length (references_of py_str (merge_inner gt sub)) = length (merge_inner gt sub) \<and>
   (\<forall>p r. New_MetricsComputer p r \<in> set (fst (evaluate_submission py_str mc sub gt)) \<longrightarrow>
      length p = length r \<and> length p = length (merge_inner gt sub))"
  by (auto simp: evaluate_submission_def Let_def warnings_def scoring_events_def
      length_predictions_of length_references_of)

theorem corpus_lengths_equal_witness:
  "New_MetricsComputer [''cough'', []] [''fever'', []]
     \<in> set (fst (evaluate_submission py_str_bool example_scorers example_submission example_ground_truth)) \<and>
   length [''cough'', []] = length [''fever'', []] \<and>
   length [''cough'', []] = length (merge_inner example_ground_truth example_submission)"
proof -
  have "New_MetricsComputer [''cough'', []] [''fever'', []]
     \<in> set (fst (evaluate_submission py_str_bool example_scorers example_submission example_ground_truth))"
    by (simp add: evaluate_submission_returns [OF example_merge_not_Nil] scoring_events_def
        example_predictions example_references)
  then show ?thesis
    using corpus_lengths_equal [of py_str_bool example_ground_truth example_submission example_scorers]
    by blast
qed

text \<open>
  C10. Whenever \<^verbatim>\<open>evaluate_submission\<close> returns a dictionary, \<^verbatim>\<open>num_samples\<close> is the
  number of merged rows and is at least 1, \<^verbatim>\<open>coverage\<close> is that number divided by the
  number of ground truth rows, times 100, it is strictly positive, and it exceeds 100 only
  if two rows of the submission have the same id. (The float division and multiplication
  are taken over the reals.)
\<close>

theorem coverage_and_num_samples:
  assumes "snd (evaluate_submission py_str mc sub gt) = Inr res"
  shows "res ''num_samples'' = Some (PyInt (int (length (merge_inner gt sub)))) \<and>
         1 \<le> length (merge_inner gt sub) \<and>
         res ''coverage'' =
           Some (PyFloat (real (length (merge_inner gt sub)) / real (length gt) * 100)) \<and>
         0 < real (length (merge_inner gt sub)) / real (length gt) * 100 \<and>
         (100 < real (length (merge_inner gt sub)) / real (length gt) * 100
            \<longrightarrow> \<not> distinct (map sub_id sub))"
proof -
  from snd_evaluate_submission_Inr [OF assms]
  have ne: "merge_inner gt sub \<noteq> []"
    and res: "res = build_results mc (predictions_of py_str (merge_inner gt sub))
                 (references_of py_str (merge_inner gt sub)) (length (merge_inner gt sub)) (length gt)"
    by simp_all
  from ne have n: "1 \<le> length (merge_inner gt sub)"
    by (cases "merge_inner gt sub") simp_all
  from ne have "gt \<noteq> []"
    using merge_inner_Nil_left by blast
  then have g: "0 < length gt" by simp
  have pos: "0 < real (length (merge_inner gt sub)) / real (length gt) * 100"
  proof -
    have "0 < real (length (merge_inner gt sub))" and "0 < real (length gt)"
      using ne \<open>gt \<noteq> []\<close> by simp_all
    then have d: "0 < real (length (merge_inner gt sub)) / real (length gt)"
      by (rule divide_pos_pos)
    show ?thesis
      by (rule mult_pos_pos [OF d]) simp
  qed
  have dup: "\<not> distinct (map sub_id sub)"
    if "100 < real (length (merge_inner gt sub)) / real (length gt) * 100"
  proof
    assume "distinct (map sub_id sub)"
    then have "length (merge_inner gt sub) \<le> length gt"
      by (rule length_merge_inner_le)
    then have "real (length (merge_inner gt sub)) / real (length gt) \<le> 1"
      using g by simp
    then have "real (length (merge_inner gt sub)) / real (length gt) * 100 \<le> 1 * 100"
      by (rule mult_right_mono) simp
    with that show False by simp
  qed
  show ?thesis
    using n pos dup by (simp add: res build_results_def Let_def)
qed

theorem coverage_and_num_samples_witness:
  "(\<exists>res. snd (evaluate_submission py_str_bool example_scorers example_duplicates example_ground_truth) = Inr res \<and>
      res ''num_samples'' = Some (PyInt 5) \<and> res ''coverage'' = Some (PyFloat 250)) \<and>
   (100::real) < 250 \<and> \<not> distinct (map sub_id example_duplicates)"
proof -
  have ne: "merge_inner example_ground_truth example_duplicates \<noteq> []"
    using example_duplicates_length by auto
  obtain res where r: "snd (evaluate_submission py_str_bool example_scorers example_duplicates example_ground_truth) = Inr res"
    by (simp add: evaluate_submission_returns [OF ne])
  have l: "length example_ground_truth = 2"
    by (simp add: example_ground_truth_def)
  from coverage_and_num_samples [OF r] r show ?thesis
    by (simp add: example_duplicates_length l)
qed

end
